theory Spec2Isabelle
  imports Main "HOL-Library.Word"
begin

section \<open>Python values used by \<open>app.py\<close>\<close>

text \<open>
  A Python \<open>str\<close> is a sequence of Unicode code points, so it is a list of naturals here
  (the messages of the program hold emoji, which no 8-bit character represents).
  \<open>lit\<close> turns an ASCII literal into such a string. \<open>bytes\<close> are lists of octets.
\<close>

type_synonym pystr = "nat list"

type_synonym pybytes = "8 word list"

definition lit :: "string \<Rightarrow> pystr" where
  "lit cs = map of_char cs"

text \<open>
  The object \<open>response.json()\<close> returns: \<open>None\<close>, \<open>bool\<close>, \<open>int\<close>, \<open>float\<close>, \<open>str\<close>,
  \<open>list\<close> or \<open>dict\<close> (keys in insertion order). Floating point numbers stay abstract: the
  type \<open>'f\<close>, of which the program observes the truth value and the \<open>repr\<close> only; both are
  parameters (\<open>float_bool\<close>, \<open>float_repr\<close> below).
\<close>

datatype 'f json =
    PyNone
  | PyBool bool
  | PyInt int
  | PyFloat 'f
  | PyStr pystr
  | PyList "'f json list"
  | PyDict "(pystr \<times> 'f json) list"

text \<open>
  Exceptions, each with its \<open>str(e)\<close>. \<open>RequestException\<close> stands for
  \<open>requests.exceptions.RequestException\<close> and its subclasses (\<open>HTTPError\<close>,
  \<open>ConnectionError\<close>, ...); \<open>OtherException\<close> for every other subclass of \<open>Exception\<close>
  that the HTTP call or the JSON decoder raises.
\<close>

datatype exn =
    RequestException pystr
  | AttributeError pystr
  | OtherException pystr

fun exn_str :: "exn \<Rightarrow> pystr" where
  "exn_str (RequestException m) = m"
| "exn_str (AttributeError m) = m"
| "exn_str (OtherException m) = m"

subsection \<open>Truth values\<close>

fun truthy :: "('f \<Rightarrow> bool) \<Rightarrow> 'f json \<Rightarrow> bool" where
  "truthy fb PyNone = False"
| "truthy fb (PyBool b) = b"
| "truthy fb (PyInt i) = (i \<noteq> 0)"
| "truthy fb (PyFloat x) = fb x"
| "truthy fb (PyStr s) = (s \<noteq> [])"
| "truthy fb (PyList xs) = (xs \<noteq> [])"
| "truthy fb (PyDict kvs) = (kvs \<noteq> [])"

subsection \<open>\<open>dict.get\<close>\<close>

fun type_name :: "'f json \<Rightarrow> pystr" where
  "type_name PyNone = lit ''NoneType''"
| "type_name (PyBool b) = lit ''bool''"
| "type_name (PyInt i) = lit ''int''"
| "type_name (PyFloat x) = lit ''float''"
| "type_name (PyStr s) = lit ''str''"
| "type_name (PyList xs) = lit ''list''"
| "type_name (PyDict kvs) = lit ''dict''"

text \<open>
  \<open>obj.get(key, default)\<close>: a lookup with a default on a \<open>dict\<close>; on any other JSON value
  the attribute does not exist and Python raises \<open>AttributeError\<close>.
\<close>

fun py_get :: "'f json \<Rightarrow> pystr \<Rightarrow> 'f json \<Rightarrow> exn + 'f json" where
  "py_get (PyDict kvs) k dflt = Inr (case map_of kvs k of None \<Rightarrow> dflt | Some v \<Rightarrow> v)"
| "py_get obj k dflt =
     Inl (AttributeError ([39] @ type_name obj @ [39] @ lit '' object has no attribute '' @ [39] @ lit ''get'' @ [39]))"

subsection \<open>\<open>str.strip\<close> and \<open>str.replace\<close>\<close>

definition py_isspace :: "nat \<Rightarrow> bool" where
  "py_isspace c =
     ((9 \<le> c \<and> c \<le> 13) \<or> (28 \<le> c \<and> c \<le> 32) \<or> c = 133 \<or> c = 160 \<or> c = 5760
      \<or> (8192 \<le> c \<and> c \<le> 8202) \<or> c = 8232 \<or> c = 8233 \<or> c = 8239 \<or> c = 8287
      \<or> c = 12288)"

definition strip :: "pystr \<Rightarrow> pystr" where
  "strip s = rev (dropWhile py_isspace (rev (dropWhile py_isspace s)))"

fun replace_nonempty :: "pystr \<Rightarrow> pystr \<Rightarrow> pystr \<Rightarrow> pystr" where
  "replace_nonempty [] old new = []"
| "replace_nonempty (c # cs) old new =
     (if old \<noteq> [] \<and> take (length old) (c # cs) = old
      then new @ replace_nonempty (drop (length old) (c # cs)) old new
      else c # replace_nonempty cs old new)"

text \<open>
  \<open>s.replace(old, new)\<close>: every occurrence of \<open>old\<close>, left to right, without overlap. With an
  empty \<open>old\<close> Python puts \<open>new\<close> before every character and at the end.
\<close>

definition replace :: "pystr \<Rightarrow> pystr \<Rightarrow> pystr \<Rightarrow> pystr" where
  "replace s old new =
     (if old = [] then new @ concat (map (\<lambda>c. c # new) s) else replace_nonempty s old new)"

subsection \<open>\<open>str(int)\<close>\<close>

fun digits :: "nat \<Rightarrow> pystr" where
  "digits n = (if n < 10 then [48 + n] else digits (n div 10) @ [48 + n mod 10])"

declare digits.simps [simp del]

definition str_int :: "int \<Rightarrow> pystr" where
  "str_int i = (if i < 0 then 45 # digits (nat (- i)) else digits (nat i))"

subsection \<open>\<open>json.dumps(obj, indent=2)\<close>\<close>

text \<open>
  The encoder of the standard library with its defaults: \<open>ensure_ascii=True\<close>, item
  separator \<open>,\<close> and key separator \<open>: \<close>, a new line and two spaces per level.
\<close>

definition hexdigit :: "nat \<Rightarrow> nat" where
  "hexdigit d = (if d < 10 then 48 + d else 87 + d)"

definition hex4 :: "nat \<Rightarrow> pystr" where
  "hex4 n = [hexdigit (n div 4096 mod 16), hexdigit (n div 256 mod 16),
             hexdigit (n div 16 mod 16), hexdigit (n mod 16)]"

definition escape_char :: "nat \<Rightarrow> pystr" where
  "escape_char c =
     (if c = 92 then [92, 92]
      else if c = 34 then [92, 34]
      else if c = 8 then [92, 98]
      else if c = 12 then [92, 102]
      else if c = 10 then [92, 110]
      else if c = 13 then [92, 114]
      else if c = 9 then [92, 116]
      else if 32 \<le> c \<and> c \<le> 126 then [c]
      else if c < 65536 then [92, 117] @ hex4 c
      else [92, 117] @ hex4 (55296 + (c - 65536) div 1024 mod 1024)
           @ [92, 117] @ hex4 (56320 + (c - 65536) mod 1024))"

definition encode_basestring_ascii :: "pystr \<Rightarrow> pystr" where
  "encode_basestring_ascii s = [34] @ concat (map escape_char s) @ [34]"

definition newline_indent :: "nat \<Rightarrow> pystr" where
  "newline_indent lvl = 10 # replicate (2 * lvl) 32"

fun join :: "pystr \<Rightarrow> pystr list \<Rightarrow> pystr" where
  "join sep [] = []"
| "join sep [x] = x"
| "join sep (x # y # ys) = x @ sep @ join sep (y # ys)"

fun iterencode :: "('f \<Rightarrow> pystr) \<Rightarrow> nat \<Rightarrow> 'f json \<Rightarrow> pystr"
  and iterencode_list :: "('f \<Rightarrow> pystr) \<Rightarrow> nat \<Rightarrow> 'f json list \<Rightarrow> pystr list"
  and iterencode_dict :: "('f \<Rightarrow> pystr) \<Rightarrow> nat \<Rightarrow> (pystr \<times> 'f json) list \<Rightarrow> pystr list"
where
  "iterencode fr lvl PyNone = lit ''null''"
| "iterencode fr lvl (PyBool b) = (if b then lit ''true'' else lit ''false'')"
| "iterencode fr lvl (PyInt i) = str_int i"
| "iterencode fr lvl (PyFloat x) = fr x"
| "iterencode fr lvl (PyStr s) = encode_basestring_ascii s"
| "iterencode fr lvl (PyList xs) =
     (if xs = [] then lit ''[]''
      else [91] @ newline_indent (lvl + 1)
           @ join ([44] @ newline_indent (lvl + 1)) (iterencode_list fr (lvl + 1) xs)
           @ newline_indent lvl @ [93])"
| "iterencode fr lvl (PyDict kvs) =
     (if kvs = [] then lit ''{}''
      else [123] @ newline_indent (lvl + 1)
           @ join ([44] @ newline_indent (lvl + 1)) (iterencode_dict fr (lvl + 1) kvs)
           @ newline_indent lvl @ [125])"
| "iterencode_list fr lvl [] = []"
| "iterencode_list fr lvl (x # xs) = iterencode fr lvl x # iterencode_list fr lvl xs"
| "iterencode_dict fr lvl [] = []"
| "iterencode_dict fr lvl ((k, v) # kvs) =
     (encode_basestring_ascii k @ lit '': '' @ iterencode fr lvl v) # iterencode_dict fr lvl kvs"

definition dumps_indent2 :: "('f \<Rightarrow> pystr) \<Rightarrow> 'f json \<Rightarrow> pystr" where
  "dumps_indent2 fr obj = iterencode fr 0 obj"

section \<open>The HTTP client\<close>

text \<open>
  The arguments of \<open>requests.post(url, files=files, data=data, headers=headers)\<close>. The
  three dictionaries are association lists; \<open>files\<close> maps a form field to the pair of a file
  name and the raw bytes.
\<close>

record request =
  req_url :: pystr
  req_files :: "(pystr \<times> pystr \<times> pybytes) list"
  req_data :: "(pystr \<times> pystr) list"
  req_headers :: "(pystr \<times> pystr) list"

text \<open>
  What the program reads of a \<open>requests.Response\<close>: the status line, the final URL, and
  what \<open>response.json()\<close> does (it raises on a body that is not JSON, otherwise it returns
  the decoded object).
\<close>

record 'f response =
  status_code :: int
  reason :: pystr
  resp_url :: pystr
  json_body :: "exn + 'f json"

text \<open>
  \<open>Response.raise_for_status\<close> of the \<open>requests\<close> library raises \<open>HTTPError\<close> (a
  \<open>RequestException\<close>) for a status of 400 to 599 and returns for every other status.
\<close>

definition raise_for_status :: "'f response \<Rightarrow> exn + unit" where
  "raise_for_status r =
     (if 400 \<le> status_code r \<and> status_code r < 500
      then Inl (RequestException (str_int (status_code r) @ lit '' Client Error: '' @ reason r
                                  @ lit '' for url: '' @ resp_url r))
      else if 500 \<le> status_code r \<and> status_code r < 600
      then Inl (RequestException (str_int (status_code r) @ lit '' Server Error: '' @ reason r
                                  @ lit '' for url: '' @ resp_url r))
      else Inr ())"

text \<open>
  The world outside the program: the network (\<open>post\<close> raises or returns a response) and
  the two observations of a float.
\<close>

record 'f env =
  post :: "request \<Rightarrow> exn + 'f response"
  float_bool :: "'f \<Rightarrow> bool"
  float_repr :: "'f \<Rightarrow> pystr"

section \<open>The Streamlit session\<close>

text \<open>
  One run of the script reads the widgets and appends to the page. The widget calls
  (\<open>st.radio\<close>, \<open>st.text_input\<close>, \<open>st.selectbox\<close>, \<open>st.file_uploader\<close>, \<open>st.button\<close>) return
  what the user entered: the record \<open>inputs\<close>. Every other effect of a run is an event of its
  trace, in program order: the display calls, \<open>time.sleep\<close>, the HTTP request, and each
  assignment to \<open>st.session_state.processing_result\<close>.
\<close>

datatype input_method = Select_from_Dropdown | Enter_Customer_Name

record uploaded_file =
  name :: pystr
  getvalue :: pybytes

record inputs =
  customer_input_method :: input_method
  manual_customer_name :: pystr
  dropdown_customer_name :: pystr
  uploaded :: "uploaded_file option"
  submit_clicked :: bool

datatype 'f event =
    St_header pystr
  | St_info pystr
  | St_error pystr
  | St_success pystr
  | St_warning pystr
  | St_markdown pystr
  | St_code pystr pystr
  | St_download_button pystr pystr pystr pystr
  | St_json "'f json"
  | St_spinner_enter pystr
  | St_spinner_exit
  | Time_sleep nat
  | Requests_post request
  | Set_processing_result "'f json"

text \<open>
  \<open>st.session_state\<close>: \<open>None\<close> when the key \<open>processing_result\<close> is not in it yet,
  \<open>Some PyNone\<close> when it holds Python's \<open>None\<close>.
\<close>

record 'f session_state =
  processing_result :: "'f json option"

text \<open>
  How a run ends: the function returns, \<open>st.rerun()\<close> stops the run and asks for a new one
  (it raises Streamlit's \<open>RerunException\<close>, a \<open>BaseException\<close> that \<open>except Exception\<close> does not
  catch), or an exception leaves \<open>process_files_tab\<close>.
\<close>

datatype outcome = Returned | Rerun | Raised exn

record 'f run =
  state :: "'f session_state"
  events :: "'f event list"
  outcome :: outcome

section \<open>\<open>app.py\<close>\<close>

definition API_BASE_URL :: pystr where
  "API_BASE_URL = lit ''https://ride-popularity-wrestling-uncle.trycloudflare.com/api''"

definition PROCESSING_ENDPOINT :: pystr where
  "PROCESSING_ENDPOINT = lit ''/process/OcrBytes''"

definition CUSTOMER_NAMES :: "pystr list" where
  "CUSTOMER_NAMES = [lit ''voorbeelden'', lit ''allseas'', lit ''visdeal'', lit ''berencourt'']"

text \<open>Lines 67 to 81: the customer name comes from the widget the radio button selects.\<close>

definition customer_name_of :: "inputs \<Rightarrow> pystr" where
  "customer_name_of inp =
     (if customer_input_method inp = Enter_Customer_Name
      then manual_customer_name inp else dropdown_customer_name inp)"

text \<open>Lines 124 to 126, the body of the \<open>try\<close> up to the decoded result.\<close>

definition fetch_result :: "'f env \<Rightarrow> request \<Rightarrow> exn + 'f json" where
  "fetch_result env req =
     (case post env req of
        Inl e \<Rightarrow> Inl e
      | Inr response \<Rightarrow>
          (case raise_for_status response of
             Inl e \<Rightarrow> Inl e
           | Inr u \<Rightarrow> json_body response))"

text \<open>Lines 134 to 139, the two \<open>except\<close> clauses.\<close>

fun except_clauses :: "exn \<Rightarrow> 'f event list" where
  "except_clauses (RequestException m) =
     [St_error (lit ''API request failed: '' @ m), Set_processing_result PyNone]"
| "except_clauses e =
     [St_error (lit ''An unexpected error occurred: '' @ exn_str e), Set_processing_result PyNone]"

definition build_request :: "uploaded_file \<Rightarrow> pystr \<Rightarrow> request" where
  "build_request uf customer_name =
     \<lparr>req_url = API_BASE_URL @ PROCESSING_ENDPOINT,
      req_files = [(lit ''file'', (name uf, getvalue uf))],
      req_data = [(lit ''customer_name'', customer_name)],
      req_headers = [(lit ''accept'', lit ''application/json'')]\<rparr>"

text \<open>Lines 108 to 139: the submission once both checks have passed.\<close>

definition submit_block :: "'f env \<Rightarrow> uploaded_file \<Rightarrow> pystr \<Rightarrow> 'f run" where
  "submit_block env uf customer_name =
     (let req = build_request uf customer_name;
          before =
            [Set_processing_result PyNone,
             St_spinner_enter (lit ''Processing file for '' @ [39] @ customer_name @ [39] @ lit ''...''),
             Time_sleep 5,
             Requests_post req]
      in case fetch_result env req of
           Inr result \<Rightarrow>
             \<lparr>state = \<lparr>processing_result = Some result\<rparr>,
              events = before @
                [Set_processing_result result,
                 St_success (lit ''File '' @ [39] @ name uf @ [39]
                             @ lit '' processed successfully for customer '' @ [39]
                             @ customer_name @ [39] @ lit ''!''),
                 St_spinner_exit],
              outcome = Rerun\<rparr>
         | Inl e \<Rightarrow>
             \<lparr>state = \<lparr>processing_result = Some PyNone\<rparr>,
              events = before @ except_clauses e @ [St_spinner_exit],
              outcome = Returned\<rparr>)"

text \<open>Line 143: the chain of three \<open>get\<close> calls.\<close>

definition gpt_extraction_output :: "'f json \<Rightarrow> exn + 'f json" where
  "gpt_extraction_output result =
     (case py_get result (lit ''data'') (PyDict []) of
        Inl e \<Rightarrow> Inl e
      | Inr d \<Rightarrow>
          (case py_get d (lit ''extracted_data'') (PyDict []) of
             Inl e \<Rightarrow> Inl e
           | Inr x \<Rightarrow> py_get x (lit ''gpt_extraction_output'') PyNone))"

text \<open>
  Line 154: the name of the download. The condition \<open>if uploaded_file\<close> tests an
  \<open>UploadedFile\<close> object, which is true whenever it is not \<open>None\<close>.
\<close>

definition download_file_name :: "uploaded_file option \<Rightarrow> pystr \<Rightarrow> pystr" where
  "download_file_name uf customer_name =
     (case uf of
        Some f \<Rightarrow> replace (name f) (lit ''.pdf'') [] @ lit ''_'' @ customer_name @ lit ''_extracted.json''
      | None \<Rightarrow> lit ''extracted_'' @ customer_name @ lit ''.json'')"

text \<open>Lines 147 to 158: the extracted view, or the warning.\<close>

definition extracted_view :: "'f env \<Rightarrow> 'f json \<Rightarrow> uploaded_file option \<Rightarrow> pystr \<Rightarrow> 'f event list" where
  "extracted_view env gpt_json uf customer_name =
     (if truthy (float_bool env) gpt_json
      then [St_markdown (lit ''### '' @ [128196] @ lit '' Extracted JSON''),
            St_code (dumps_indent2 (float_repr env) gpt_json) (lit ''json''),
            St_download_button ([128229] @ lit '' Download Extracted JSON'')
              (dumps_indent2 (float_repr env) gpt_json)
              (download_file_name uf customer_name)
              (lit ''application/json'')]
      else [St_warning ([9888, 65039] @ lit '' Extracted JSON output not found in the response.'')])"

text \<open>Lines 141 to 161: the result section, for the value the session holds.\<close>

definition render_block ::
  "'f env \<Rightarrow> 'f json \<Rightarrow> uploaded_file option \<Rightarrow> pystr \<Rightarrow> 'f event list \<times> outcome" where
  "render_block env stored uf customer_name =
     (if truthy (float_bool env) stored
      then (case gpt_extraction_output stored of
              Inl e \<Rightarrow> ([], Raised e)
            | Inr gpt_json \<Rightarrow>
                ([St_markdown (lit ''<hr>'')]
                 @ extracted_view env gpt_json uf customer_name
                 @ [St_markdown (lit ''### '' @ [128196] @ lit '' Processed Document : Summary''),
                    St_json stored],
                 Returned))
      else ([], Returned))"

text \<open>
  The value line 141 reads. It is read after line 93 has run, so the key is there; the
  absent key is mapped to \<open>None\<close> all the same, to keep the function total.
\<close>

definition stored_result :: "'f session_state \<Rightarrow> 'f json" where
  "stored_result s = (case processing_result s of None \<Rightarrow> PyNone | Some v \<Rightarrow> v)"

definition render_from :: "'f env \<Rightarrow> inputs \<Rightarrow> 'f session_state \<Rightarrow> 'f event list \<Rightarrow> 'f run" where
  "render_from env inp s evs =
     (case render_block env (stored_result s) (uploaded inp) (customer_name_of inp) of
        (rendered, out) \<Rightarrow> \<lparr>state = s, events = evs @ rendered, outcome = out\<rparr>)"

text \<open>Lines 92 and 93.\<close>

definition init_events :: "'f session_state \<Rightarrow> 'f event list" where
  "init_events s = (if processing_result s = None then [Set_processing_result PyNone] else [])"

definition init_state :: "'f session_state \<Rightarrow> 'f session_state" where
  "init_state s = (if processing_result s = None then \<lparr>processing_result = Some PyNone\<rparr> else s)"

text \<open>Lines 55 to 161.\<close>

definition process_files_tab :: "'f env \<Rightarrow> inputs \<Rightarrow> 'f session_state \<Rightarrow> 'f run" where
  "process_files_tab env inp s =
     (let customer_name = customer_name_of inp;
          top = [St_header ([129504] @ lit '' Process Files - Capture Platform (Unified Model)'')]
      in if customer_name \<noteq> [] \<and> customer_name \<notin> set CUSTOMER_NAMES
         then \<lparr>state = s,
               events = top @
                 [St_error ([128680] @ lit '' Invalid customer name: '' @ [39] @ customer_name @ [39]
                            @ lit ''. Please select a valid customer from the list.'')],
               outcome = Returned\<rparr>
         else
           (let shown = top @
                  [St_info (lit ''The Model Prompt and Example Schema are now loaded by the backend based on the **Customer Name** you enter/select: **''
                            @ customer_name @ lit ''**'')]
                  @ init_events s;
                s1 = init_state s
            in if submit_clicked inp
               then
                 (if strip customer_name = []
                  then \<lparr>state = \<lparr>processing_result = Some PyNone\<rparr>,
                        events = shown @
                          [St_error ([128680] @ lit '' Please enter/select a Customer Name.''),
                           Set_processing_result PyNone],
                        outcome = Returned\<rparr>
                  else
                    (case uploaded inp of
                       None \<Rightarrow>
                         \<lparr>state = \<lparr>processing_result = Some PyNone\<rparr>,
                          events = shown @
                            [St_error ([128680] @ lit '' Please upload a file to process.''),
                             Set_processing_result PyNone],
                          outcome = Returned\<rparr>
                     | Some uf \<Rightarrow>
                         (let r = submit_block env uf customer_name
                          in if outcome r = Rerun
                             then r\<lparr>events := shown @ events r\<rparr>
                             else render_from env inp (state r) (shown @ events r))))
               else render_from env inp s1 shown))"

section \<open>Observations of a run\<close>

text \<open>
  The effects of a trace that are not display calls: the delay, the HTTP request and the
  assignments to the stored result, in program order.
\<close>

fun is_effect :: "'f event \<Rightarrow> bool" where
  "is_effect (Time_sleep n) = True"
| "is_effect (Requests_post r) = True"
| "is_effect (Set_processing_result v) = True"
| "is_effect e = False"

definition effects :: "'f event list \<Rightarrow> 'f event list" where
  "effects evs = filter is_effect evs"

text \<open>The HTTP requests of a trace.\<close>

fun post_of :: "'f event \<Rightarrow> request list" where
  "post_of (Requests_post r) = [r]"
| "post_of e = []"

definition posts :: "'f event list \<Rightarrow> request list" where
  "posts evs = concat (map post_of evs)"

text \<open>The header and the information line every run shows once the customer name has passed line 83.\<close>

definition page_top :: "pystr \<Rightarrow> 'f event list" where
  "page_top c =
     [St_header ([129504] @ lit '' Process Files - Capture Platform (Unified Model)''),
      St_info (lit ''The Model Prompt and Example Schema are now loaded by the backend based on the **Customer Name** you enter/select: **''
               @ c @ lit ''**'')]"

text \<open>The three display events of the result section around the extracted view.\<close>

definition hr :: "'f event" where
  "hr = St_markdown (lit ''<hr>'')"

definition summary_heading :: "'f event" where
  "summary_heading = St_markdown (lit ''### '' @ [128196] @ lit '' Processed Document : Summary'')"

definition not_found_warning :: "'f event" where
  "not_found_warning = St_warning ([9888, 65039] @ lit '' Extracted JSON output not found in the response.'')"

section \<open>Concrete inputs\<close>

text \<open>
  A server that answers every request with the given status and body, and a network that
  is down. The float type is \<open>unit\<close> here: no example holds a float.
\<close>

definition server :: "int \<Rightarrow> exn + unit json \<Rightarrow> unit env" where
  "server st body =
     \<lparr>post = (\<lambda>req. Inr \<lparr>status_code = st, reason = lit ''reason'', resp_url = req_url req,
                           json_body = body\<rparr>),
      float_bool = (\<lambda>u. False),
      float_repr = (\<lambda>u. lit ''0.0'')\<rparr>"

definition unreachable :: "unit env" where
  "unreachable =
     \<lparr>post = (\<lambda>req. Inl (RequestException (lit ''Connection refused''))),
      float_bool = (\<lambda>u. False),
      float_repr = (\<lambda>u. lit ''0.0'')\<rparr>"

definition form :: "pystr \<Rightarrow> uploaded_file option \<Rightarrow> bool \<Rightarrow> inputs" where
  "form c uf clicked =
     \<lparr>customer_input_method = Enter_Customer_Name, manual_customer_name = c,
      dropdown_customer_name = lit ''voorbeelden'', uploaded = uf, submit_clicked = clicked\<rparr>"

definition scan_pdf :: uploaded_file where
  "scan_pdf = \<lparr>name = lit ''scan.pdf'', getvalue = [37, 80, 68, 70]\<rparr>"

definition scan_png :: uploaded_file where
  "scan_png = \<lparr>name = lit ''scan.png'', getvalue = [137, 80, 78, 71]\<rparr>"

definition example_result :: "'f json" where
  "example_result =
     PyDict [(lit ''data'', PyDict [(lit ''extracted_data'',
       PyDict [(lit ''gpt_extraction_output'', PyDict [(lit ''a'', PyInt 1)])])])]"

definition holding :: "'f json \<Rightarrow> 'f session_state" where
  "holding v = \<lparr>processing_result = Some v\<rparr>"

section \<open>Basic facts\<close>

lemma lit_eq_iff [simp]: "lit a = lit b \<longleftrightarrow> a = b"
  unfolding lit_def by (simp add: inj_map_eq_map inj_on_def)

lemma lit_Nil_iff [simp]: "lit a = [] \<longleftrightarrow> a = []" "[] = lit a \<longleftrightarrow> a = []"
  by (auto simp: lit_def)

lemma customer_names_nonempty: "c \<in> set CUSTOMER_NAMES \<Longrightarrow> c \<noteq> []"
  by (auto simp: CUSTOMER_NAMES_def)

lemma customer_names_strip: "c \<in> set CUSTOMER_NAMES \<Longrightarrow> strip c \<noteq> []"
  by (auto simp: CUSTOMER_NAMES_def strip_def lit_def py_isspace_def)

lemma strip_Nil: "strip [] = []"
  by (simp add: strip_def)

lemma posts_append [simp]: "posts (xs @ ys) = posts xs @ posts ys"
  by (simp add: posts_def)

lemma posts_simps [simp]: "posts [] = []" "posts (e # es) = post_of e @ posts es"
  by (simp_all add: posts_def)

lemma effects_simps [simp]:
  "effects [] = []" "effects (e # es) = (if is_effect e then e # effects es else effects es)"
  by (simp_all add: effects_def)

lemma posts_page_top [simp]: "posts (page_top c) = []"
  by (simp add: page_top_def)

lemma posts_init_events [simp]: "posts (init_events s) = []"
  by (simp add: init_events_def)

lemma posts_render_block [simp]: "posts (fst (render_block env r uf c)) = []"
  by (simp add: render_block_def extracted_view_def split: sum.splits)

lemma outcome_render_block: "snd (render_block env r uf c) \<noteq> Rerun"
  by (simp add: render_block_def split: sum.splits)

lemma render_from_sel:
  "state (render_from env inp s evs) = s"
  "events (render_from env inp s evs) =
     evs @ fst (render_block env (stored_result s) (uploaded inp) (customer_name_of inp))"
  "outcome (render_from env inp s evs) =
     snd (render_block env (stored_result s) (uploaded inp) (customer_name_of inp))"
  by (simp_all add: render_from_def split: prod.splits)

lemma effects_append [simp]: "effects (xs @ ys) = effects xs @ effects ys"
  by (simp add: effects_def)

lemma effects_page_top [simp]: "effects (page_top c) = []"
  by (simp add: effects_def page_top_def)

lemma effects_init_events [simp]: "effects (init_events s) = init_events s"
  by (simp add: effects_def init_events_def)

lemma effects_extracted_view [simp]: "effects (extracted_view env g uf c) = []"
  by (simp add: effects_def extracted_view_def)

lemma effects_render_block [simp]: "effects (fst (render_block env r uf c)) = []"
  by (simp add: render_block_def effects_def extracted_view_def split: sum.splits)

lemma dumps_example:
  "dumps_indent2 fr (PyDict [(lit ''a'', PyInt 1)]) =
     [123, 10] @ lit ''  '' @ [34] @ lit ''a'' @ [34] @ lit '': 1'' @ [10, 125]"
  by (simp add: dumps_indent2_def newline_indent_def encode_basestring_ascii_def escape_char_def
      lit_def str_int_def digits.simps numeral_2_eq_2)

subsection \<open>The ways through \<open>process_files_tab\<close>\<close>

lemma run_rejected:
  "customer_name_of inp \<noteq> [] \<Longrightarrow> customer_name_of inp \<notin> set CUSTOMER_NAMES \<Longrightarrow>
   process_files_tab env inp s =
     \<lparr>state = s,
      events = [St_header ([129504] @ lit '' Process Files - Capture Platform (Unified Model)''),
                St_error ([128680] @ lit '' Invalid customer name: '' @ [39] @ customer_name_of inp @ [39]
                          @ lit ''. Please select a valid customer from the list.'')],
      outcome = Returned\<rparr>"
  by (simp add: process_files_tab_def Let_def)

lemma run_no_submit:
  "customer_name_of inp = [] \<or> customer_name_of inp \<in> set CUSTOMER_NAMES \<Longrightarrow> \<not> submit_clicked inp \<Longrightarrow>
   process_files_tab env inp s =
     render_from env inp (init_state s) (page_top (customer_name_of inp) @ init_events s)"
  by (auto simp add: process_files_tab_def Let_def page_top_def)

lemma run_submit_empty:
  "customer_name_of inp = [] \<Longrightarrow> submit_clicked inp \<Longrightarrow>
   process_files_tab env inp s =
     \<lparr>state = \<lparr>processing_result = Some PyNone\<rparr>,
      events = page_top [] @ init_events s @
        [St_error ([128680] @ lit '' Please enter/select a Customer Name.''), Set_processing_result PyNone],
      outcome = Returned\<rparr>"
  by (simp add: process_files_tab_def Let_def page_top_def strip_Nil)

lemma run_submit_no_file:
  "customer_name_of inp \<in> set CUSTOMER_NAMES \<Longrightarrow> submit_clicked inp \<Longrightarrow> uploaded inp = None \<Longrightarrow>
   process_files_tab env inp s =
     \<lparr>state = \<lparr>processing_result = Some PyNone\<rparr>,
      events = page_top (customer_name_of inp) @ init_events s @
        [St_error ([128680] @ lit '' Please upload a file to process.''), Set_processing_result PyNone],
      outcome = Returned\<rparr>"
  by (simp add: process_files_tab_def Let_def page_top_def customer_names_strip)

lemma render_from_cleared:
  "render_from env inp \<lparr>processing_result = Some PyNone\<rparr> evs =
     \<lparr>state = \<lparr>processing_result = Some PyNone\<rparr>, events = evs, outcome = Returned\<rparr>"
  by (simp add: render_from_def render_block_def stored_result_def)

lemma run_submit_file:
  "customer_name_of inp \<in> set CUSTOMER_NAMES \<Longrightarrow> submit_clicked inp \<Longrightarrow> uploaded inp = Some uf \<Longrightarrow>
   process_files_tab env inp s =
     (let r = submit_block env uf (customer_name_of inp)
      in r\<lparr>events := page_top (customer_name_of inp) @ init_events s @ events r\<rparr>)"
  by (simp add: process_files_tab_def Let_def page_top_def customer_names_strip submit_block_def
      render_from_cleared split: sum.splits)

subsection \<open>The request and its outcome\<close>

lemma endpoint_url:
  "API_BASE_URL @ PROCESSING_ENDPOINT =
     lit ''https://ride-popularity-wrestling-uncle.trycloudflare.com/api/process/OcrBytes''"
  by (simp add: API_BASE_URL_def PROCESSING_ENDPOINT_def lit_def)

lemma fetch_result_ok:
  "post env req = Inr resp \<Longrightarrow> \<not> (400 \<le> status_code resp \<and> status_code resp < 600) \<Longrightarrow>
   fetch_result env req = json_body resp"
  by (auto simp add: fetch_result_def raise_for_status_def)

lemma fetch_result_fails:
  assumes "post env req = Inl e
           \<or> (\<exists>resp. post env req = Inr resp \<and> 400 \<le> status_code resp \<and> status_code resp < 600
                      \<and> raise_for_status resp = Inl e)
           \<or> (\<exists>resp. post env req = Inr resp \<and> \<not> (400 \<le> status_code resp \<and> status_code resp < 600)
                      \<and> json_body resp = Inl e)"
  shows "fetch_result env req = Inl e"
  using assms by (auto simp add: fetch_result_def raise_for_status_def)

lemma is_effect_except_clauses: "effects (except_clauses e) = [Set_processing_result PyNone]"
  by (cases e) simp_all

lemma posts_except_clauses: "posts (except_clauses e) = []"
  by (cases e) simp_all

subsection \<open>The result section\<close>

lemma gpt_lookup_present:
  "map_of kvs (lit ''data'') = Some (PyDict kvs2) \<Longrightarrow>
   map_of kvs2 (lit ''extracted_data'') = Some (PyDict kvs3) \<Longrightarrow>
   map_of kvs3 (lit ''gpt_extraction_output'') = Some g \<Longrightarrow>
   gpt_extraction_output (PyDict kvs) = Inr g"
  by (simp add: gpt_extraction_output_def)

lemma gpt_lookup_lacking:
  assumes "map_of kvs (lit ''data'') = None
           \<or> (\<exists>kvs2. map_of kvs (lit ''data'') = Some (PyDict kvs2)
                \<and> (map_of kvs2 (lit ''extracted_data'') = None
                    \<or> (\<exists>kvs3. map_of kvs2 (lit ''extracted_data'') = Some (PyDict kvs3)
                         \<and> map_of kvs3 (lit ''gpt_extraction_output'') = None)))"
  shows "gpt_extraction_output (PyDict kvs) = Inr PyNone"
  using assms by (auto simp add: gpt_extraction_output_def)

lemma gpt_lookup_example: "gpt_extraction_output example_result = Inr (PyDict [(lit ''a'', PyInt 1)])"
  by (simp add: gpt_extraction_output_def example_result_def)

lemma render_block_ok:
  "truthy (float_bool env) R \<Longrightarrow> gpt_extraction_output R = Inr g \<Longrightarrow>
   render_block env R uf c = ([hr] @ extracted_view env g uf c @ [summary_heading, St_json R], Returned)"
  by (simp add: render_block_def hr_def summary_heading_def)

lemma run_render:
  assumes "customer_name_of inp = [] \<or> customer_name_of inp \<in> set CUSTOMER_NAMES"
    and "\<not> submit_clicked inp" and "processing_result s = Some R"
  shows "process_files_tab env inp s =
           \<lparr>state = s,
            events = page_top (customer_name_of inp)
                     @ fst (render_block env R (uploaded inp) (customer_name_of inp)),
            outcome = snd (render_block env R (uploaded inp) (customer_name_of inp))\<rparr>"
  using assms
  by (simp add: run_no_submit render_from_def init_state_def init_events_def stored_result_def
      split: prod.splits)

lemma extracted_view_falsy:
  "\<not> truthy (float_bool env) g \<Longrightarrow> extracted_view env g uf c = [not_found_warning]"
  by (simp add: extracted_view_def not_found_warning_def)

lemma dumps_example_result_differs:
  "dumps_indent2 fr (example_result :: 'f json) \<noteq>
     [123, 10] @ lit ''  '' @ [34] @ lit ''a'' @ [34] @ lit '': 1'' @ [10, 125]"
  by (simp add: dumps_indent2_def example_result_def newline_indent_def lit_def)

lemma render_block_example:
  "render_block env example_result uf c =
     ([hr,
       St_markdown (lit ''### '' @ [128196] @ lit '' Extracted JSON''),
       St_code ([123, 10] @ lit ''  '' @ [34] @ lit ''a'' @ [34] @ lit '': 1'' @ [10, 125]) (lit ''json''),
       St_download_button ([128229] @ lit '' Download Extracted JSON'')
         ([123, 10] @ lit ''  '' @ [34] @ lit ''a'' @ [34] @ lit '': 1'' @ [10, 125])
         (download_file_name uf c)
         (lit ''application/json''),
       summary_heading,
       St_json example_result], Returned)"
proof -
  have t: "truthy (float_bool env) (example_result :: 'a json)"
    by (simp add: example_result_def)
  show ?thesis
    unfolding render_block_ok [OF t gpt_lookup_example] extracted_view_def dumps_example
    by simp
qed

lemma download_name_scan_pdf:
  "download_file_name (Some scan_pdf) (lit ''allseas'') = lit ''scan_allseas_extracted.json''"
  by (simp add: download_file_name_def scan_pdf_def replace_def lit_def)

lemma download_name_scan_png:
  "download_file_name (Some scan_png) (lit ''allseas'') = lit ''scan.png_allseas_extracted.json''"
  by (simp add: download_file_name_def scan_png_def replace_def lit_def)

section \<open>Validation\<close>

text \<open>
  C2. A customer name outside the allow-list never reaches the network: the run issues no
  request, no delay and stores no result, and it does not ask for a rerun. A non-empty such
  name stops the run at line 85 with the "Invalid customer name" error, before the Submit
  button exists; the empty name passes line 83 and a click on Submit is refused at line 98.
\<close>

theorem unlisted_customer_blocked:
  assumes "customer_name_of inp \<notin> set CUSTOMER_NAMES"
  shows "posts (events (process_files_tab env inp s)) = []
         \<and> effects (events (process_files_tab env inp s)) =
             (if customer_name_of inp = []
              then init_events s @ (if submit_clicked inp then [Set_processing_result PyNone] else [])
              else [])
         \<and> outcome (process_files_tab env inp s) \<noteq> Rerun
         \<and> (customer_name_of inp \<noteq> [] \<longrightarrow>
              process_files_tab env inp s =
                \<lparr>state = s,
                 events =
                   [St_header ([129504] @ lit '' Process Files - Capture Platform (Unified Model)''),
                    St_error ([128680] @ lit '' Invalid customer name: '' @ [39] @ customer_name_of inp
                              @ [39] @ lit ''. Please select a valid customer from the list.'')],
                 outcome = Returned\<rparr>)
         \<and> (customer_name_of inp = [] \<and> submit_clicked inp \<longrightarrow>
              process_files_tab env inp s =
                \<lparr>state = holding PyNone,
                 events = page_top [] @ init_events s @
                   [St_error ([128680] @ lit '' Please enter/select a Customer Name.''),
                    Set_processing_result PyNone],
                 outcome = Returned\<rparr>)"
proof (cases "customer_name_of inp = []")
  case False
  with assms show ?thesis
    by (simp add: run_rejected)
next
  case True
  show ?thesis
  proof (cases "submit_clicked inp")
    case True
    with \<open>customer_name_of inp = []\<close> show ?thesis
      by (simp add: run_submit_empty holding_def)
  next
    case False
    with \<open>customer_name_of inp = []\<close> show ?thesis
      by (simp add: run_no_submit render_from_sel outcome_render_block)
  qed
qed

theorem unlisted_customer_blocked_witness:
  "customer_name_of (form (lit ''acme'') (Some scan_pdf) True) \<notin> set CUSTOMER_NAMES
   \<and> posts (events (process_files_tab (server 200 (Inr example_result))
                      (form (lit ''acme'') (Some scan_pdf) True) (holding PyNone))) = []
   \<and> process_files_tab (server 200 (Inr example_result))
        (form (lit ''acme'') (Some scan_pdf) True) (holding PyNone) =
       \<lparr>state = holding PyNone,
        events =
          [St_header ([129504] @ lit '' Process Files - Capture Platform (Unified Model)''),
           St_error ([128680] @ lit '' Invalid customer name: '' @ [39] @ lit ''acme''
                     @ [39] @ lit ''. Please select a valid customer from the list.'')],
        outcome = Returned\<rparr>"
  using unlisted_customer_blocked [of "form (lit ''acme'') (Some scan_pdf) True"
      "server 200 (Inr example_result)" "holding PyNone"]
  by (simp add: form_def customer_name_of_def CUSTOMER_NAMES_def)

text \<open>
  C6. With a customer name of the allow-list and no file attached, a click on Submit shows
  the file-required error, clears the stored result and returns: no request is issued.
\<close>

theorem no_file_blocks:
  assumes "customer_name_of inp \<in> set CUSTOMER_NAMES" and "uploaded inp = None" and "submit_clicked inp"
  shows "events (process_files_tab env inp s) =
           page_top (customer_name_of inp) @ init_events s @
             [St_error ([128680] @ lit '' Please upload a file to process.''), Set_processing_result PyNone]
         \<and> posts (events (process_files_tab env inp s)) = []
         \<and> state (process_files_tab env inp s) = holding PyNone
         \<and> outcome (process_files_tab env inp s) = Returned"
  using assms by (simp add: run_submit_no_file holding_def)

theorem no_file_blocks_witness:
  "customer_name_of (form (lit ''allseas'') None True) \<in> set CUSTOMER_NAMES
   \<and> uploaded (form (lit ''allseas'') None True) = None
   \<and> submit_clicked (form (lit ''allseas'') None True)
   \<and> events (process_files_tab (server 200 (Inr example_result)) (form (lit ''allseas'') None True)
               (holding example_result)) =
       page_top (lit ''allseas'') @
         [St_error ([128680] @ lit '' Please upload a file to process.''), Set_processing_result PyNone]
   \<and> posts (events (process_files_tab (server 200 (Inr example_result)) (form (lit ''allseas'') None True)
                      (holding example_result))) = []
   \<and> state (process_files_tab (server 200 (Inr example_result)) (form (lit ''allseas'') None True)
              (holding example_result)) = holding PyNone"
  using no_file_blocks [of "form (lit ''allseas'') None True" "server 200 (Inr example_result)"
      "holding example_result"]
  by (simp add: form_def customer_name_of_def CUSTOMER_NAMES_def init_events_def holding_def)

section \<open>Rendering again\<close>

text \<open>
  C9. A run without a click on Submit, in a session that holds a result, leaves the session
  state as it was and has no effect besides display: no assignment to the stored result, no
  delay, no request. Run again on the state it leaves, it does the same.
\<close>

theorem rerender_read_only:
  assumes "processing_result s = Some v" and "\<not> submit_clicked inp"
  shows "state (process_files_tab env inp s) = s
         \<and> effects (events (process_files_tab env inp s)) = []
         \<and> posts (events (process_files_tab env inp s)) = []
         \<and> process_files_tab env inp (state (process_files_tab env inp s)) = process_files_tab env inp s"
proof -
  have init: "init_state s = s" "init_events s = []"
    using assms(1) by (simp_all add: init_state_def init_events_def)
  have "state (process_files_tab env inp s) = s
        \<and> effects (events (process_files_tab env inp s)) = []
        \<and> posts (events (process_files_tab env inp s)) = []"
  proof (cases "customer_name_of inp = [] \<or> customer_name_of inp \<in> set CUSTOMER_NAMES")
    case True
    then show ?thesis using assms(2) init
      by (simp add: run_no_submit render_from_sel)
  next
    case False
    then show ?thesis
      by (simp add: run_rejected)
  qed
  then show ?thesis by simp
qed

theorem rerender_read_only_witness:
  "processing_result (holding (example_result :: unit json)) = Some example_result
   \<and> \<not> submit_clicked (form (lit ''allseas'') (Some scan_pdf) False)
   \<and> state (process_files_tab unreachable (form (lit ''allseas'') (Some scan_pdf) False)
              (holding example_result)) = holding example_result
   \<and> effects (events (process_files_tab unreachable (form (lit ''allseas'') (Some scan_pdf) False)
                        (holding example_result))) = []
   \<and> posts (events (process_files_tab unreachable (form (lit ''allseas'') (Some scan_pdf) False)
                      (holding example_result))) = []"
  using rerender_read_only [of "holding example_result" example_result
      "form (lit ''allseas'') (Some scan_pdf) False" unreachable]
  by (simp add: form_def holding_def)

section \<open>Submission\<close>

text \<open>
  C1. When the customer name is in the allow-list, a file is attached and Submit is clicked,
  the run first clears the stored result, then sleeps 5 seconds, then issues one POST, to
  \<open>API_BASE_URL + "/process/OcrBytes"\<close> with the header \<open>accept: application/json\<close>, the file
  under the field \<open>file\<close> as (name, bytes) and the customer name under \<open>customer_name\<close>; these
  and the assignment of the outcome are all its effects, in this order. When the request
  returns a response that \<open>raise_for_status\<close> accepts and whose body decodes, the decoded body
  is stored, the success notice is shown and \<open>st.rerun()\<close> ends the run.
\<close>

theorem valid_submission:
  assumes "customer_name_of inp \<in> set CUSTOMER_NAMES" and "uploaded inp = Some uf" and "submit_clicked inp"
  shows "effects (events (process_files_tab env inp s)) =
           init_events s @
             [Set_processing_result PyNone, Time_sleep 5,
              Requests_post
                \<lparr>req_url = lit ''https://ride-popularity-wrestling-uncle.trycloudflare.com/api/process/OcrBytes'',
                 req_files = [(lit ''file'', (name uf, getvalue uf))],
                 req_data = [(lit ''customer_name'', customer_name_of inp)],
                 req_headers = [(lit ''accept'', lit ''application/json'')]\<rparr>,
              Set_processing_result
                (case fetch_result env (build_request uf (customer_name_of inp)) of
                   Inr body \<Rightarrow> body | Inl e \<Rightarrow> PyNone)]
         \<and> posts (events (process_files_tab env inp s)) =
             [\<lparr>req_url = lit ''https://ride-popularity-wrestling-uncle.trycloudflare.com/api/process/OcrBytes'',
               req_files = [(lit ''file'', (name uf, getvalue uf))],
               req_data = [(lit ''customer_name'', customer_name_of inp)],
               req_headers = [(lit ''accept'', lit ''application/json'')]\<rparr>]
         \<and> (post env (build_request uf (customer_name_of inp)) = Inr resp
              \<and> \<not> (400 \<le> status_code resp \<and> status_code resp < 600)
              \<and> json_body resp = Inr body \<longrightarrow>
              state (process_files_tab env inp s) = holding body
              \<and> outcome (process_files_tab env inp s) = Rerun
              \<and> events (process_files_tab env inp s) =
                  page_top (customer_name_of inp) @ init_events s @
                    [Set_processing_result PyNone,
                     St_spinner_enter (lit ''Processing file for '' @ [39] @ customer_name_of inp @ [39] @ lit ''...''),
                     Time_sleep 5,
                     Requests_post (build_request uf (customer_name_of inp)),
                     Set_processing_result body,
                     St_success (lit ''File '' @ [39] @ name uf @ [39]
                                 @ lit '' processed successfully for customer '' @ [39]
                                 @ customer_name_of inp @ [39] @ lit ''!''),
                     St_spinner_exit])"
proof -
  let ?c = "customer_name_of inp"
  have run: "process_files_tab env inp s =
      (let r = submit_block env uf ?c in r\<lparr>events := page_top ?c @ init_events s @ events r\<rparr>)"
    by (rule run_submit_file [OF assms(1) assms(3) assms(2)])
  have req: "build_request uf ?c =
      \<lparr>req_url = lit ''https://ride-popularity-wrestling-uncle.trycloudflare.com/api/process/OcrBytes'',
       req_files = [(lit ''file'', (name uf, getvalue uf))],
       req_data = [(lit ''customer_name'', ?c)],
       req_headers = [(lit ''accept'', lit ''application/json'')]\<rparr>"
    by (simp add: build_request_def endpoint_url)
  have eff: "effects (events (submit_block env uf ?c)) =
      [Set_processing_result PyNone, Time_sleep 5, Requests_post (build_request uf ?c),
       Set_processing_result (case fetch_result env (build_request uf ?c) of Inr body \<Rightarrow> body | Inl e \<Rightarrow> PyNone)]"
    by (simp add: submit_block_def Let_def is_effect_except_clauses split: sum.splits)
  have po: "posts (events (submit_block env uf ?c)) = [build_request uf ?c]"
    by (simp add: submit_block_def Let_def posts_except_clauses split: sum.splits)
  have ok: "state (submit_block env uf ?c) = holding body
      \<and> outcome (submit_block env uf ?c) = Rerun
      \<and> events (submit_block env uf ?c) =
          [Set_processing_result PyNone,
           St_spinner_enter (lit ''Processing file for '' @ [39] @ ?c @ [39] @ lit ''...''),
           Time_sleep 5, Requests_post (build_request uf ?c), Set_processing_result body,
           St_success (lit ''File '' @ [39] @ name uf @ [39]
                       @ lit '' processed successfully for customer '' @ [39] @ ?c @ [39] @ lit ''!''),
           St_spinner_exit]"
    if "post env (build_request uf ?c) = Inr resp"
      and "\<not> (400 \<le> status_code resp \<and> status_code resp < 600)"
      and "json_body resp = Inr body"
  proof -
    have "fetch_result env (build_request uf ?c) = Inr body"
      using that by (simp add: fetch_result_ok)
    then show ?thesis
      by (simp add: submit_block_def Let_def holding_def)
  qed
  show ?thesis
    unfolding run Let_def using eff po ok req by simp
qed


theorem valid_submission_witness:
  "customer_name_of (form (lit ''allseas'') (Some scan_pdf) True) \<in> set CUSTOMER_NAMES
   \<and> uploaded (form (lit ''allseas'') (Some scan_pdf) True) = Some scan_pdf
   \<and> submit_clicked (form (lit ''allseas'') (Some scan_pdf) True)
   \<and> effects (events (process_files_tab (server 200 (Inr example_result))
                        (form (lit ''allseas'') (Some scan_pdf) True) (holding (PyInt 7)))) =
       [Set_processing_result PyNone, Time_sleep 5,
        Requests_post
          \<lparr>req_url = lit ''https://ride-popularity-wrestling-uncle.trycloudflare.com/api/process/OcrBytes'',
           req_files = [(lit ''file'', (lit ''scan.pdf'', [37, 80, 68, 70]))],
           req_data = [(lit ''customer_name'', lit ''allseas'')],
           req_headers = [(lit ''accept'', lit ''application/json'')]\<rparr>,
        Set_processing_result example_result]
   \<and> state (process_files_tab (server 200 (Inr example_result))
              (form (lit ''allseas'') (Some scan_pdf) True) (holding (PyInt 7))) = holding example_result
   \<and> outcome (process_files_tab (server 200 (Inr example_result))
                (form (lit ''allseas'') (Some scan_pdf) True) (holding (PyInt 7))) = Rerun"
  using valid_submission [where inp = "form (lit ''allseas'') (Some scan_pdf) True" and uf = scan_pdf
      and env = "server 200 (Inr example_result)" and s = "holding (PyInt 7)"
      and resp = "\<lparr>status_code = 200, reason = lit ''reason'',
                     resp_url = req_url (build_request scan_pdf (lit ''allseas'')),
                     json_body = Inr example_result\<rparr>"
      and body = example_result]
  by (simp add: form_def customer_name_of_def CUSTOMER_NAMES_def server_def holding_def
      init_events_def fetch_result_def raise_for_status_def scan_pdf_def build_request_def endpoint_url)

text \<open>
  C3, as amended. A submission fails when the POST raises, when the status is 400 to 599
  (the statuses \<open>raise_for_status\<close> rejects), or when the body does not decode. Then the run
  shows an error notice that ends with the text of the exception, stores \<open>None\<close>, and returns
  without a rerun; a later valid submission, from the state the failed one leaves, stores
  its result and reruns.
\<close>

theorem failed_submission:
  assumes "customer_name_of inp \<in> set CUSTOMER_NAMES" and "uploaded inp = Some uf" and "submit_clicked inp"
    and "post env (build_request uf (customer_name_of inp)) = Inl e
         \<or> (\<exists>resp. post env (build_request uf (customer_name_of inp)) = Inr resp
               \<and> 400 \<le> status_code resp \<and> status_code resp < 600 \<and> raise_for_status resp = Inl e)
         \<or> (\<exists>resp. post env (build_request uf (customer_name_of inp)) = Inr resp
               \<and> \<not> (400 \<le> status_code resp \<and> status_code resp < 600) \<and> json_body resp = Inl e)"
  shows "events (process_files_tab env inp s) =
           page_top (customer_name_of inp) @ init_events s @
             [Set_processing_result PyNone,
              St_spinner_enter (lit ''Processing file for '' @ [39] @ customer_name_of inp @ [39] @ lit ''...''),
              Time_sleep 5,
              Requests_post (build_request uf (customer_name_of inp)),
              St_error ((case e of RequestException m \<Rightarrow> lit ''API request failed: ''
                                 | AttributeError m \<Rightarrow> lit ''An unexpected error occurred: ''
                                 | OtherException m \<Rightarrow> lit ''An unexpected error occurred: '') @ exn_str e),
              Set_processing_result PyNone,
              St_spinner_exit]
         \<and> state (process_files_tab env inp s) = holding PyNone
         \<and> outcome (process_files_tab env inp s) = Returned
         \<and> (customer_name_of inp' \<in> set CUSTOMER_NAMES \<and> uploaded inp' = Some uf' \<and> submit_clicked inp'
              \<and> post env' (build_request uf' (customer_name_of inp')) = Inr resp'
              \<and> \<not> (400 \<le> status_code resp' \<and> status_code resp' < 600)
              \<and> json_body resp' = Inr body \<longrightarrow>
              state (process_files_tab env' inp' (state (process_files_tab env inp s))) = holding body
              \<and> outcome (process_files_tab env' inp' (state (process_files_tab env inp s))) = Rerun)"
proof -
  let ?c = "customer_name_of inp"
  have run: "process_files_tab env inp s =
      (let r = submit_block env uf ?c in r\<lparr>events := page_top ?c @ init_events s @ events r\<rparr>)"
    by (rule run_submit_file [OF assms(1) assms(3) assms(2)])
  have fail: "fetch_result env (build_request uf ?c) = Inl e"
    using assms(4) by (rule fetch_result_fails)
  have first: "events (process_files_tab env inp s) =
           page_top ?c @ init_events s @
             [Set_processing_result PyNone,
              St_spinner_enter (lit ''Processing file for '' @ [39] @ ?c @ [39] @ lit ''...''),
              Time_sleep 5,
              Requests_post (build_request uf ?c),
              St_error ((case e of RequestException m \<Rightarrow> lit ''API request failed: ''
                                 | AttributeError m \<Rightarrow> lit ''An unexpected error occurred: ''
                                 | OtherException m \<Rightarrow> lit ''An unexpected error occurred: '') @ exn_str e),
              Set_processing_result PyNone,
              St_spinner_exit]
         \<and> state (process_files_tab env inp s) = holding PyNone
         \<and> outcome (process_files_tab env inp s) = Returned"
    unfolding run using fail by (cases e) (simp_all add: submit_block_def Let_def holding_def)
  have again: "state (process_files_tab env' inp' t) = holding body
        \<and> outcome (process_files_tab env' inp' t) = Rerun"
    if "customer_name_of inp' \<in> set CUSTOMER_NAMES" and "uploaded inp' = Some uf'" and "submit_clicked inp'"
      and "post env' (build_request uf' (customer_name_of inp')) = Inr resp'"
      and "\<not> (400 \<le> status_code resp' \<and> status_code resp' < 600)"
      and "json_body resp' = Inr body" for t
  proof -
    have "fetch_result env' (build_request uf' (customer_name_of inp')) = Inr body"
      using that(4-6) by (simp add: fetch_result_ok)
    then show ?thesis
      unfolding run_submit_file [OF that(1) that(3) that(2)]
      by (simp add: submit_block_def Let_def holding_def)
  qed
  show ?thesis
    using first again by blast
qed

theorem failed_submission_witness:
  "customer_name_of (form (lit ''allseas'') (Some scan_pdf) True) \<in> set CUSTOMER_NAMES
   \<and> uploaded (form (lit ''allseas'') (Some scan_pdf) True) = Some scan_pdf
   \<and> submit_clicked (form (lit ''allseas'') (Some scan_pdf) True)
   \<and> post (server 404 (Inr example_result)) (build_request scan_pdf (lit ''allseas'')) =
       Inr \<lparr>status_code = 404, reason = lit ''reason'',
            resp_url = lit ''https://ride-popularity-wrestling-uncle.trycloudflare.com/api/process/OcrBytes'',
            json_body = Inr example_result\<rparr>
   \<and> events (process_files_tab (server 404 (Inr example_result))
               (form (lit ''allseas'') (Some scan_pdf) True) (holding example_result)) =
       page_top (lit ''allseas'') @
         [Set_processing_result PyNone,
          St_spinner_enter (lit ''Processing file for '' @ [39] @ lit ''allseas'' @ [39] @ lit ''...''),
          Time_sleep 5,
          Requests_post (build_request scan_pdf (lit ''allseas'')),
          St_error (lit ''API request failed: '' @ lit ''404'' @ lit '' Client Error: '' @ lit ''reason''
                    @ lit '' for url: ''
                    @ lit ''https://ride-popularity-wrestling-uncle.trycloudflare.com/api/process/OcrBytes''),
          Set_processing_result PyNone,
          St_spinner_exit]
   \<and> state (process_files_tab (server 404 (Inr example_result))
              (form (lit ''allseas'') (Some scan_pdf) True) (holding example_result)) = holding PyNone
   \<and> outcome (process_files_tab (server 404 (Inr example_result))
                (form (lit ''allseas'') (Some scan_pdf) True) (holding example_result)) = Returned
   \<and> state (process_files_tab (server 200 (Inr example_result))
              (form (lit ''visdeal'') (Some scan_png) True)
              (state (process_files_tab (server 404 (Inr example_result))
                        (form (lit ''allseas'') (Some scan_pdf) True) (holding example_result)))) =
       holding example_result"
proof -
  let ?inp = "form (lit ''allseas'') (Some scan_pdf) True"
  let ?url = "lit ''https://ride-popularity-wrestling-uncle.trycloudflare.com/api/process/OcrBytes''"
  let ?resp = "\<lparr>status_code = 404, reason = lit ''reason'', resp_url = ?url,
                 json_body = Inr (example_result :: unit json)\<rparr>"
  let ?e = "RequestException (lit ''404'' @ lit '' Client Error: '' @ lit ''reason'' @ lit '' for url: '' @ ?url)"
  let ?inp' = "form (lit ''visdeal'') (Some scan_png) True"
  let ?resp' = "\<lparr>status_code = 200, reason = lit ''reason'', resp_url = ?url,
                  json_body = Inr (example_result :: unit json)\<rparr>"
  have c: "customer_name_of ?inp = lit ''allseas''" "customer_name_of ?inp' = lit ''visdeal''"
    by (simp_all add: form_def customer_name_of_def)
  have h1: "customer_name_of ?inp \<in> set CUSTOMER_NAMES"
    and h2: "uploaded ?inp = Some scan_pdf" and h3: "submit_clicked ?inp"
    by (simp_all add: c CUSTOMER_NAMES_def) (simp_all add: form_def)
  have p: "post (server 404 (Inr example_result)) (build_request scan_pdf (lit ''allseas'')) = Inr ?resp"
    by (simp add: server_def build_request_def endpoint_url)
  have r: "raise_for_status ?resp = Inl ?e"
    by (simp add: raise_for_status_def str_int_def digits.simps lit_def)
  have h4: "post (server 404 (Inr example_result)) (build_request scan_pdf (customer_name_of ?inp)) = Inl ?e
      \<or> (\<exists>resp. post (server 404 (Inr example_result)) (build_request scan_pdf (customer_name_of ?inp)) = Inr resp
            \<and> 400 \<le> status_code resp \<and> status_code resp < 600 \<and> raise_for_status resp = Inl ?e)
      \<or> (\<exists>resp. post (server 404 (Inr example_result)) (build_request scan_pdf (customer_name_of ?inp)) = Inr resp
            \<and> \<not> (400 \<le> status_code resp \<and> status_code resp < 600) \<and> json_body resp = Inl ?e)"
    unfolding c p using r by simp
  have g1: "customer_name_of ?inp' \<in> set CUSTOMER_NAMES"
    and g2: "uploaded ?inp' = Some scan_png" and g3: "submit_clicked ?inp'"
    by (simp_all add: c CUSTOMER_NAMES_def) (simp_all add: form_def)
  have g4: "post (server 200 (Inr example_result)) (build_request scan_png (customer_name_of ?inp')) = Inr ?resp'"
    by (simp add: server_def build_request_def endpoint_url)
  have g5: "\<not> (400 \<le> status_code ?resp' \<and> status_code ?resp' < 600)" and g6: "json_body ?resp' = Inr example_result"
    by simp_all
  note main = failed_submission [OF h1 h2 h3 h4, where s = "holding example_result"
      and inp' = ?inp' and uf' = scan_png and env' = "server 200 (Inr example_result)"
      and resp' = ?resp' and body = example_result]
  note m1 = main [THEN conjunct1]
    and m2 = main [THEN conjunct2, THEN conjunct1]
    and m3 = main [THEN conjunct2, THEN conjunct2, THEN conjunct1]
    and m4 = main [THEN conjunct2, THEN conjunct2, THEN conjunct2]
  have again: "state (process_files_tab (server 200 (Inr example_result)) ?inp'
      (state (process_files_tab (server 404 (Inr example_result)) ?inp (holding example_result)))) =
      holding example_result"
    using m4 g1 g2 g3 g4 g5 g6 by simp
  have first: "events (process_files_tab (server 404 (Inr example_result)) ?inp (holding example_result)) =
       page_top (lit ''allseas'') @
         [Set_processing_result PyNone,
          St_spinner_enter (lit ''Processing file for '' @ [39] @ lit ''allseas'' @ [39] @ lit ''...''),
          Time_sleep 5,
          Requests_post (build_request scan_pdf (lit ''allseas'')),
          St_error (lit ''API request failed: '' @ lit ''404'' @ lit '' Client Error: '' @ lit ''reason''
                    @ lit '' for url: '' @ ?url),
          Set_processing_result PyNone,
          St_spinner_exit]"
    using m1 by (simp add: c init_events_def holding_def)
  show ?thesis
    using h1 h2 h3 p first m2 m3 again by (intro conjI)
qed

text \<open>
  The claim C3 as stated counts every status outside 200 to 299 as a failure. The program
  does not: \<open>raise_for_status\<close> lets a status of 300 pass, and a response with that status and
  a JSON body is stored and announced as a success, with a rerun.
\<close>

theorem status_300_stored:
  "post (server 300 (Inr example_result)) (build_request scan_pdf (lit ''allseas'')) =
     Inr \<lparr>status_code = 300, reason = lit ''reason'',
          resp_url = lit ''https://ride-popularity-wrestling-uncle.trycloudflare.com/api/process/OcrBytes'',
          json_body = Inr example_result\<rparr>
   \<and> process_files_tab (server 300 (Inr example_result))
       (form (lit ''allseas'') (Some scan_pdf) True) (holding PyNone) =
       \<lparr>state = holding example_result,
        events = page_top (lit ''allseas'') @
          [Set_processing_result PyNone,
           St_spinner_enter (lit ''Processing file for '' @ [39] @ lit ''allseas'' @ [39] @ lit ''...''),
           Time_sleep 5,
           Requests_post (build_request scan_pdf (lit ''allseas'')),
           Set_processing_result example_result,
           St_success (lit ''File '' @ [39] @ lit ''scan.pdf'' @ [39]
                       @ lit '' processed successfully for customer '' @ [39] @ lit ''allseas'' @ [39] @ lit ''!''),
           St_spinner_exit],
        outcome = Rerun\<rparr>"
proof -
  have c: "customer_name_of (form (lit ''allseas'') (Some scan_pdf) True) = lit ''allseas''"
    by (simp add: form_def customer_name_of_def)
  have "process_files_tab (server 300 (Inr example_result))
       (form (lit ''allseas'') (Some scan_pdf) True) (holding PyNone) =
      (let r = submit_block (server 300 (Inr example_result)) scan_pdf (lit ''allseas'')
       in r\<lparr>events := page_top (lit ''allseas'') @ init_events (holding PyNone) @ events r\<rparr>)"
    using run_submit_file [of "form (lit ''allseas'') (Some scan_pdf) True" scan_pdf
        "server 300 (Inr example_result)" "holding PyNone"]
    by (simp add: c CUSTOMER_NAMES_def) (simp add: form_def)
  then show ?thesis
    by (simp add: Let_def submit_block_def fetch_result_def server_def raise_for_status_def
        holding_def init_events_def scan_pdf_def build_request_def endpoint_url)
qed

section \<open>The result section\<close>

text \<open>
  C4. For the stored result \<open>{"data": {"extracted_data": {"gpt_extraction_output": {"a": 1}}}}\<close>
  (\<open>example_result\<close>) the result section shows, as code, the text of
  \<open>json.dumps({"a": 1}, indent=2)\<close>, which is an opening brace, a new line, two spaces and
  \<open>"a": 1\<close>, a new line and a closing brace; the download button carries the same text, which
  is the dump of the \<open>gpt_extraction_output\<close> subtree and not the dump of the whole response.
  A run without a click on Submit, whose customer name passes line 83, shows this section
  after the top of the page.
\<close>

theorem example_rendered:
  "render_block env example_result uf c =
     ([hr,
       St_markdown (lit ''### '' @ [128196] @ lit '' Extracted JSON''),
       St_code ([123, 10] @ lit ''  '' @ [34] @ lit ''a'' @ [34] @ lit '': 1'' @ [10, 125]) (lit ''json''),
       St_download_button ([128229] @ lit '' Download Extracted JSON'')
         ([123, 10] @ lit ''  '' @ [34] @ lit ''a'' @ [34] @ lit '': 1'' @ [10, 125])
         (download_file_name uf c)
         (lit ''application/json''),
       summary_heading,
       St_json example_result], Returned)
   \<and> dumps_indent2 (float_repr env) (PyDict [(lit ''a'', PyInt 1)]) =
       [123, 10] @ lit ''  '' @ [34] @ lit ''a'' @ [34] @ lit '': 1'' @ [10, 125]
   \<and> dumps_indent2 (float_repr env) (example_result :: 'f json) \<noteq>
       [123, 10] @ lit ''  '' @ [34] @ lit ''a'' @ [34] @ lit '': 1'' @ [10, 125]
   \<and> (processing_result s = Some example_result \<and> \<not> submit_clicked inp
        \<and> (customer_name_of inp = [] \<or> customer_name_of inp \<in> set CUSTOMER_NAMES) \<longrightarrow>
        events (process_files_tab env inp s) =
          page_top (customer_name_of inp)
          @ fst (render_block env example_result (uploaded inp) (customer_name_of inp))
        \<and> outcome (process_files_tab env inp s) = Returned)"
proof -
  have run: "events (process_files_tab env inp s) =
          page_top (customer_name_of inp)
          @ fst (render_block env example_result (uploaded inp) (customer_name_of inp))
        \<and> outcome (process_files_tab env inp s) = Returned"
    if "processing_result s = Some example_result" and "\<not> submit_clicked inp"
      and "customer_name_of inp = [] \<or> customer_name_of inp \<in> set CUSTOMER_NAMES"
    unfolding run_render [OF that(3) that(2) that(1)] by (simp add: render_block_example)
  show ?thesis
    using run render_block_example [of env uf c] dumps_example [of "float_repr env"]
      dumps_example_result_differs [of "float_repr env"]
    by blast
qed

theorem example_rendered_witness:
  "processing_result (holding (example_result :: unit json)) = Some example_result
   \<and> \<not> submit_clicked (form (lit ''allseas'') (Some scan_pdf) False)
   \<and> customer_name_of (form (lit ''allseas'') (Some scan_pdf) False) \<in> set CUSTOMER_NAMES
   \<and> events (process_files_tab unreachable (form (lit ''allseas'') (Some scan_pdf) False)
               (holding example_result)) =
       page_top (lit ''allseas'') @
         [hr,
          St_markdown (lit ''### '' @ [128196] @ lit '' Extracted JSON''),
          St_code ([123, 10] @ lit ''  '' @ [34] @ lit ''a'' @ [34] @ lit '': 1'' @ [10, 125]) (lit ''json''),
          St_download_button ([128229] @ lit '' Download Extracted JSON'')
            ([123, 10] @ lit ''  '' @ [34] @ lit ''a'' @ [34] @ lit '': 1'' @ [10, 125])
            (lit ''scan_allseas_extracted.json'')
            (lit ''application/json''),
          summary_heading,
          St_json example_result]"
proof -
  let ?inp = "form (lit ''allseas'') (Some scan_pdf) False"
  have c: "customer_name_of ?inp = lit ''allseas''" and u: "uploaded ?inp = Some scan_pdf"
    by (simp_all add: form_def customer_name_of_def)
  have h1: "processing_result (holding (example_result :: unit json)) = Some example_result"
    by (simp add: holding_def)
  have h2: "\<not> submit_clicked ?inp"
    by (simp add: form_def)
  have h3: "customer_name_of ?inp \<in> set CUSTOMER_NAMES"
    by (simp add: c CUSTOMER_NAMES_def)
  note main = example_rendered [of unreachable "Some scan_pdf" "lit ''allseas''"
      "holding example_result" ?inp]
  note shown = main [THEN conjunct1]
    and run = main [THEN conjunct2, THEN conjunct2, THEN conjunct2, THEN mp]
  have "events (process_files_tab unreachable ?inp (holding example_result)) =
      page_top (customer_name_of ?inp)
      @ fst (render_block unreachable example_result (uploaded ?inp) (customer_name_of ?inp))"
    using run h1 h2 h3 by simp
  then show ?thesis
    using h1 h2 h3 unfolding c u shown by (simp add: download_name_scan_pdf)
qed


text \<open>
  C10. The test of line 147 is Python's truth value. When the path
  \<open>data.extracted_data.gpt_extraction_output\<close> exists and holds \<open>None\<close>, \<open>False\<close>, \<open>0\<close>, the empty
  string, list or dict, or a float that is false, the result section shows the warning that
  the output was not found, and neither the code block nor the download button; the raw
  result follows as always.
\<close>

theorem falsy_output_warns:
  assumes "map_of kvs (lit ''data'') = Some (PyDict kvs2)"
    and "map_of kvs2 (lit ''extracted_data'') = Some (PyDict kvs3)"
    and "map_of kvs3 (lit ''gpt_extraction_output'') = Some g"
    and "g \<in> {PyNone, PyBool False, PyInt 0, PyStr [], PyList [], PyDict []}
         \<or> (\<exists>x. g = PyFloat x \<and> \<not> float_bool env x)"
  shows "render_block env (PyDict kvs) uf c =
           ([hr, not_found_warning, summary_heading, St_json (PyDict kvs)], Returned)
         \<and> (processing_result s = Some (PyDict kvs) \<and> \<not> submit_clicked inp
              \<and> (customer_name_of inp = [] \<or> customer_name_of inp \<in> set CUSTOMER_NAMES) \<longrightarrow>
              events (process_files_tab env inp s) =
                page_top (customer_name_of inp)
                @ [hr, not_found_warning, summary_heading, St_json (PyDict kvs)]
              \<and> outcome (process_files_tab env inp s) = Returned)"
proof -
  have falsy: "\<not> truthy (float_bool env) g"
    using assms(4) by auto
  have "kvs \<noteq> []"
    using assms(1) by auto
  then have t: "truthy (float_bool env) (PyDict kvs)"
    by simp
  have block: "render_block env (PyDict kvs) uf' c' =
      ([hr, not_found_warning, summary_heading, St_json (PyDict kvs)], Returned)" for uf' c'
    unfolding render_block_ok [OF t gpt_lookup_present [OF assms(1) assms(2) assms(3)]]
      extracted_view_falsy [OF falsy]
    by simp
  have run: "events (process_files_tab env inp s) =
        page_top (customer_name_of inp) @ [hr, not_found_warning, summary_heading, St_json (PyDict kvs)]
      \<and> outcome (process_files_tab env inp s) = Returned"
    if "processing_result s = Some (PyDict kvs)" and "\<not> submit_clicked inp"
      and "customer_name_of inp = [] \<or> customer_name_of inp \<in> set CUSTOMER_NAMES"
    unfolding run_render [OF that(3) that(2) that(1)] block by simp
  show ?thesis
    using block run by blast
qed

theorem falsy_output_warns_witness:
  "map_of [(lit ''data'', PyDict [(lit ''extracted_data'',
       PyDict [(lit ''gpt_extraction_output'', PyList [] :: unit json)])])] (lit ''data'') =
     Some (PyDict [(lit ''extracted_data'', PyDict [(lit ''gpt_extraction_output'', PyList [])])])
   \<and> map_of [(lit ''extracted_data'', PyDict [(lit ''gpt_extraction_output'', PyList [] :: unit json)])]
        (lit ''extracted_data'') =
       Some (PyDict [(lit ''gpt_extraction_output'', PyList [])])
   \<and> map_of [(lit ''gpt_extraction_output'', PyList [] :: unit json)] (lit ''gpt_extraction_output'') =
       Some (PyList [])
   \<and> \<not> submit_clicked (form (lit ''allseas'') (Some scan_pdf) False)
   \<and> customer_name_of (form (lit ''allseas'') (Some scan_pdf) False) \<in> set CUSTOMER_NAMES
   \<and> events (process_files_tab unreachable (form (lit ''allseas'') (Some scan_pdf) False)
               (holding (PyDict [(lit ''data'', PyDict [(lit ''extracted_data'',
                  PyDict [(lit ''gpt_extraction_output'', PyList [])])])]))) =
       page_top (lit ''allseas'') @
         [hr, not_found_warning, summary_heading,
          St_json (PyDict [(lit ''data'', PyDict [(lit ''extracted_data'',
                     PyDict [(lit ''gpt_extraction_output'', PyList [])])])])]
   \<and> outcome (process_files_tab unreachable (form (lit ''allseas'') (Some scan_pdf) False)
                (holding (PyDict [(lit ''data'', PyDict [(lit ''extracted_data'',
                   PyDict [(lit ''gpt_extraction_output'', PyList [])])])]))) = Returned"
proof -
  let ?inp = "form (lit ''allseas'') (Some scan_pdf) False"
  let ?k3 = "[(lit ''gpt_extraction_output'', PyList [] :: unit json)]"
  let ?k2 = "[(lit ''extracted_data'', PyDict ?k3)]"
  let ?k1 = "[(lit ''data'', PyDict ?k2)]"
  have c: "customer_name_of ?inp = lit ''allseas''"
    by (simp add: form_def customer_name_of_def)
  have h1: "map_of ?k1 (lit ''data'') = Some (PyDict ?k2)"
    and h2: "map_of ?k2 (lit ''extracted_data'') = Some (PyDict ?k3)"
    and h3: "map_of ?k3 (lit ''gpt_extraction_output'') = Some (PyList [])"
    by simp_all
  have h4: "(PyList [] :: unit json) \<in> {PyNone, PyBool False, PyInt 0, PyStr [], PyList [], PyDict []}
      \<or> (\<exists>x. (PyList [] :: unit json) = PyFloat x \<and> \<not> float_bool unreachable x)"
    by simp
  have h5: "processing_result (holding (PyDict ?k1)) = Some (PyDict ?k1)"
    by (simp add: holding_def)
  have h6: "\<not> submit_clicked ?inp"
    by (simp add: form_def)
  have h7: "customer_name_of ?inp \<in> set CUSTOMER_NAMES"
    by (simp add: c CUSTOMER_NAMES_def)
  note main = falsy_output_warns [OF h1 h2 h3 h4, of "Some scan_pdf" "lit ''allseas''"
      "holding (PyDict ?k1)" ?inp, THEN conjunct2, THEN mp]
  have "events (process_files_tab unreachable ?inp (holding (PyDict ?k1))) =
        page_top (customer_name_of ?inp) @ [hr, not_found_warning, summary_heading, St_json (PyDict ?k1)]
      \<and> outcome (process_files_tab unreachable ?inp (holding (PyDict ?k1))) = Returned"
    using main h5 h6 h7 by simp
  then show ?thesis
    using h1 h2 h3 h6 h7 unfolding c by (intro conjI) simp_all
qed

text \<open>
  C5, as amended. For every stored result that is true as a Python value and on which the
  three \<open>get\<close> calls of line 143 do not raise, the result section ends with the raw result as
  a JSON tree, whether the extracted view or the warning precedes it; the warning is shown
  whenever the looked-up value is false, as it is when the path is lacking. A run without a
  click on Submit, whose customer name passes line 83, shows this section.
\<close>

theorem truthy_result_rendered:
  assumes "truthy (float_bool env) R" and "gpt_extraction_output R = Inr g"
  shows "render_block env R uf c =
           ([hr] @ extracted_view env g uf c @ [summary_heading, St_json R], Returned)
         \<and> (\<not> truthy (float_bool env) g \<longrightarrow> extracted_view env g uf c = [not_found_warning])
         \<and> (R = PyDict kvs
              \<and> (map_of kvs (lit ''data'') = None
                  \<or> (\<exists>kvs2. map_of kvs (lit ''data'') = Some (PyDict kvs2)
                       \<and> (map_of kvs2 (lit ''extracted_data'') = None
                           \<or> (\<exists>kvs3. map_of kvs2 (lit ''extracted_data'') = Some (PyDict kvs3)
                                \<and> map_of kvs3 (lit ''gpt_extraction_output'') = None)))) \<longrightarrow>
              render_block env R uf c = ([hr, not_found_warning, summary_heading, St_json R], Returned))
         \<and> (processing_result s = Some R \<and> \<not> submit_clicked inp
              \<and> (customer_name_of inp = [] \<or> customer_name_of inp \<in> set CUSTOMER_NAMES) \<longrightarrow>
              events (process_files_tab env inp s) =
                page_top (customer_name_of inp) @ [hr]
                @ extracted_view env g (uploaded inp) (customer_name_of inp)
                @ [summary_heading, St_json R]
              \<and> outcome (process_files_tab env inp s) = Returned)"
proof -
  note block = render_block_ok [OF assms]
  have lack: "g = PyNone"
    if "R = PyDict kvs"
      and "map_of kvs (lit ''data'') = None
           \<or> (\<exists>kvs2. map_of kvs (lit ''data'') = Some (PyDict kvs2)
                \<and> (map_of kvs2 (lit ''extracted_data'') = None
                    \<or> (\<exists>kvs3. map_of kvs2 (lit ''extracted_data'') = Some (PyDict kvs3)
                         \<and> map_of kvs3 (lit ''gpt_extraction_output'') = None)))"
    using gpt_lookup_lacking [OF that(2)] assms(2) that(1) by simp
  have run: "events (process_files_tab env inp s) =
        page_top (customer_name_of inp) @ [hr]
        @ extracted_view env g (uploaded inp) (customer_name_of inp)
        @ [summary_heading, St_json R]
      \<and> outcome (process_files_tab env inp s) = Returned"
    if "processing_result s = Some R" and "\<not> submit_clicked inp"
      and "customer_name_of inp = [] \<or> customer_name_of inp \<in> set CUSTOMER_NAMES"
    unfolding run_render [OF that(3) that(2) that(1)] block by simp
  show ?thesis
    using block [of uf c] lack run by (auto simp add: extracted_view_falsy)
qed

theorem truthy_result_rendered_witness:
  "truthy (float_bool unreachable) (PyDict [(lit ''status'', PyStr (lit ''ok''))])
   \<and> gpt_extraction_output (PyDict [(lit ''status'', PyStr (lit ''ok''))]) = Inr (PyNone :: unit json)
   \<and> map_of [(lit ''status'', PyStr (lit ''ok'') :: unit json)] (lit ''data'') = None
   \<and> \<not> submit_clicked (form (lit ''allseas'') None False)
   \<and> customer_name_of (form (lit ''allseas'') None False) \<in> set CUSTOMER_NAMES
   \<and> render_block unreachable (PyDict [(lit ''status'', PyStr (lit ''ok''))]) None (lit ''allseas'') =
       ([hr, not_found_warning, summary_heading, St_json (PyDict [(lit ''status'', PyStr (lit ''ok''))])],
        Returned)
   \<and> events (process_files_tab unreachable (form (lit ''allseas'') None False)
               (holding (PyDict [(lit ''status'', PyStr (lit ''ok''))]))) =
       page_top (lit ''allseas'') @
         [hr, not_found_warning, summary_heading, St_json (PyDict [(lit ''status'', PyStr (lit ''ok''))])]
   \<and> outcome (process_files_tab unreachable (form (lit ''allseas'') None False)
                (holding (PyDict [(lit ''status'', PyStr (lit ''ok''))]))) = Returned"
proof -
  let ?inp = "form (lit ''allseas'') None False"
  let ?kvs = "[(lit ''status'', PyStr (lit ''ok'') :: unit json)]"
  let ?R = "PyDict ?kvs"
  have c: "customer_name_of ?inp = lit ''allseas''" and u: "uploaded ?inp = None"
    by (simp_all add: form_def customer_name_of_def)
  have h1: "truthy (float_bool unreachable) ?R"
    by simp
  have h2: "gpt_extraction_output ?R = Inr PyNone"
    by (simp add: gpt_extraction_output_def)
  have h3: "map_of ?kvs (lit ''data'') = None"
    by simp
  have h4: "processing_result (holding ?R) = Some ?R"
    by (simp add: holding_def)
  have h5: "\<not> submit_clicked ?inp"
    by (simp add: form_def)
  have h6: "customer_name_of ?inp \<in> set CUSTOMER_NAMES"
    by (simp add: c CUSTOMER_NAMES_def)
  note main = truthy_result_rendered [OF h1 h2, of None "lit ''allseas''" ?kvs "holding ?R" ?inp]
  note lacking = main [THEN conjunct2, THEN conjunct2, THEN conjunct1, THEN mp]
    and run = main [THEN conjunct2, THEN conjunct2, THEN conjunct2, THEN mp]
  have b: "render_block unreachable ?R None (lit ''allseas'') =
      ([hr, not_found_warning, summary_heading, St_json ?R], Returned)"
    using lacking h3 by simp
  have r: "events (process_files_tab unreachable ?inp (holding ?R)) =
        page_top (lit ''allseas'') @ [hr, not_found_warning, summary_heading, St_json ?R]
      \<and> outcome (process_files_tab unreachable ?inp (holding ?R)) = Returned"
    using run h4 h5 h6 by (simp add: c u extracted_view_falsy)
  show ?thesis
    using h1 h2 h3 h5 h6 b r by (intro conjI) simp_all
qed

text \<open>
  The claim C5 as stated covers every stored result. The test of line 141 is a truth value
  too: the server's answer \<open>{}\<close> is stored by a valid submission, and the run that follows
  shows neither the warning nor the raw result.
\<close>

theorem empty_object_not_rendered:
  "state (process_files_tab (server 200 (Inr (PyDict [])))
            (form (lit ''allseas'') (Some scan_pdf) True) (holding PyNone)) = holding (PyDict [])
   \<and> outcome (process_files_tab (server 200 (Inr (PyDict [])))
                (form (lit ''allseas'') (Some scan_pdf) True) (holding PyNone)) = Rerun
   \<and> process_files_tab (server 200 (Inr (PyDict [])))
        (form (lit ''allseas'') (Some scan_pdf) False) (holding (PyDict [])) =
       \<lparr>state = holding (PyDict []), events = page_top (lit ''allseas''), outcome = Returned\<rparr>"
proof -
  let ?env = "server 200 (Inr (PyDict []))"
  have c: "customer_name_of (form (lit ''allseas'') (Some scan_pdf) True) = lit ''allseas''"
      "customer_name_of (form (lit ''allseas'') (Some scan_pdf) False) = lit ''allseas''"
    by (simp_all add: form_def customer_name_of_def)
  have m: "lit ''allseas'' \<in> set CUSTOMER_NAMES"
    by (simp add: CUSTOMER_NAMES_def)
  have "process_files_tab ?env (form (lit ''allseas'') (Some scan_pdf) True) (holding PyNone) =
      (let r = submit_block ?env scan_pdf (lit ''allseas'')
       in r\<lparr>events := page_top (lit ''allseas'') @ init_events (holding PyNone) @ events r\<rparr>)"
    using run_submit_file [of "form (lit ''allseas'') (Some scan_pdf) True" scan_pdf ?env "holding PyNone"]
    by (simp add: c m) (simp add: form_def)
  then have first: "state (process_files_tab ?env (form (lit ''allseas'') (Some scan_pdf) True) (holding PyNone)) =
        holding (PyDict [])
      \<and> outcome (process_files_tab ?env (form (lit ''allseas'') (Some scan_pdf) True) (holding PyNone)) = Rerun"
    by (simp add: Let_def submit_block_def fetch_result_def server_def raise_for_status_def holding_def)
  have second: "process_files_tab ?env (form (lit ''allseas'') (Some scan_pdf) False) (holding (PyDict [])) =
       \<lparr>state = holding (PyDict []), events = page_top (lit ''allseas''), outcome = Returned\<rparr>"
    using run_render [of "form (lit ''allseas'') (Some scan_pdf) False" "holding (PyDict [])" "PyDict []" ?env]
    by (simp add: c m) (simp add: form_def holding_def render_block_def)
  show ?thesis
    using first second by simp
qed


text \<open>
  C7 at the input \<open>scan.png\<close>: line 154 removes the text \<open>.pdf\<close> and nothing else, so the
  download of a PNG upload keeps the extension in its name.
\<close>

theorem png_keeps_extension:
  "events (process_files_tab unreachable (form (lit ''allseas'') (Some scan_png) False)
             (holding example_result)) =
     page_top (lit ''allseas'') @
       [hr,
        St_markdown (lit ''### '' @ [128196] @ lit '' Extracted JSON''),
        St_code ([123, 10] @ lit ''  '' @ [34] @ lit ''a'' @ [34] @ lit '': 1'' @ [10, 125]) (lit ''json''),
        St_download_button ([128229] @ lit '' Download Extracted JSON'')
          ([123, 10] @ lit ''  '' @ [34] @ lit ''a'' @ [34] @ lit '': 1'' @ [10, 125])
          (lit ''scan.png_allseas_extracted.json'')
          (lit ''application/json''),
        summary_heading,
        St_json example_result]"
proof -
  let ?inp = "form (lit ''allseas'') (Some scan_png) False"
  have c: "customer_name_of ?inp = lit ''allseas''" and u: "uploaded ?inp = Some scan_png"
    by (simp_all add: form_def customer_name_of_def)
  have m: "lit ''allseas'' \<in> set CUSTOMER_NAMES"
    by (simp add: CUSTOMER_NAMES_def)
  have "process_files_tab unreachable ?inp (holding example_result) =
      \<lparr>state = holding example_result,
       events = page_top (lit ''allseas'')
                @ fst (render_block unreachable example_result (Some scan_png) (lit ''allseas'')),
       outcome = snd (render_block unreachable example_result (Some scan_png) (lit ''allseas''))\<rparr>"
    using run_render [of ?inp "holding example_result" example_result unreachable]
    by (simp add: c u m) (simp add: form_def holding_def)
  then show ?thesis
    unfolding render_block_example download_name_scan_png by simp
qed

text \<open>
  C8 at the response body \<open>{"data": null}\<close>: a valid submission stores it and reruns; the run
  that follows evaluates \<open>None.get\<close> at line 143, outside every \<open>try\<close>. The
  \<open>AttributeError\<close> leaves \<open>process_files_tab\<close>: the program shows no error notice and does not
  reach the raw result.
\<close>

theorem null_data_raises:
  "state (process_files_tab (server 200 (Inr (PyDict [(lit ''data'', PyNone)])))
            (form (lit ''allseas'') (Some scan_pdf) True) (holding PyNone)) =
     holding (PyDict [(lit ''data'', PyNone)])
   \<and> outcome (process_files_tab (server 200 (Inr (PyDict [(lit ''data'', PyNone)])))
                (form (lit ''allseas'') (Some scan_pdf) True) (holding PyNone)) = Rerun
   \<and> process_files_tab (server 200 (Inr (PyDict [(lit ''data'', PyNone)])))
        (form (lit ''allseas'') (Some scan_pdf) False) (holding (PyDict [(lit ''data'', PyNone)])) =
       \<lparr>state = holding (PyDict [(lit ''data'', PyNone)]),
        events = page_top (lit ''allseas''),
        outcome = Raised (AttributeError ([39] @ lit ''NoneType'' @ [39] @ lit '' object has no attribute ''
                                          @ [39] @ lit ''get'' @ [39]))\<rparr>"
proof -
  let ?R = "PyDict [(lit ''data'', PyNone)] :: unit json"
  let ?env = "server 200 (Inr ?R)"
  have c: "customer_name_of (form (lit ''allseas'') (Some scan_pdf) True) = lit ''allseas''"
      "customer_name_of (form (lit ''allseas'') (Some scan_pdf) False) = lit ''allseas''"
    by (simp_all add: form_def customer_name_of_def)
  have m: "lit ''allseas'' \<in> set CUSTOMER_NAMES"
    by (simp add: CUSTOMER_NAMES_def)
  have "process_files_tab ?env (form (lit ''allseas'') (Some scan_pdf) True) (holding PyNone) =
      (let r = submit_block ?env scan_pdf (lit ''allseas'')
       in r\<lparr>events := page_top (lit ''allseas'') @ init_events (holding PyNone) @ events r\<rparr>)"
    using run_submit_file [of "form (lit ''allseas'') (Some scan_pdf) True" scan_pdf ?env "holding PyNone"]
    by (simp add: c m) (simp add: form_def)
  then have first: "state (process_files_tab ?env (form (lit ''allseas'') (Some scan_pdf) True) (holding PyNone)) =
        holding ?R
      \<and> outcome (process_files_tab ?env (form (lit ''allseas'') (Some scan_pdf) True) (holding PyNone)) = Rerun"
    by (simp add: Let_def submit_block_def fetch_result_def server_def raise_for_status_def holding_def)
  have second: "process_files_tab ?env (form (lit ''allseas'') (Some scan_pdf) False) (holding ?R) =
       \<lparr>state = holding ?R, events = page_top (lit ''allseas''),
        outcome = Raised (AttributeError ([39] @ lit ''NoneType'' @ [39] @ lit '' object has no attribute ''
                                          @ [39] @ lit ''get'' @ [39]))\<rparr>"
    using run_render [of "form (lit ''allseas'') (Some scan_pdf) False" "holding ?R" ?R ?env]
    by (simp add: c m) (simp add: form_def holding_def render_block_def gpt_extraction_output_def)
  show ?thesis
    using first second by simp
qed



end
